theory Spec2Isabelle
  imports Main
begin

section \<open>The message-bus client: broker, channels and values\<close>

text \<open>
  The repository holds two variants of the RabbitMQ client. The basic variant
  (\<^verbatim>\<open>src/events.ts\<close>, lines 1 to 92) offers \<^verbatim>\<open>publish\<close>, \<^verbatim>\<open>consume\<close>,
  \<^verbatim>\<open>filterOrAck\<close> and \<^verbatim>\<open>attemptMessageData\<close>. The dead-letter variant
  (\<^verbatim>\<open>src/encrypt.ts\<close>, lines 56 to 190) adds \<^verbatim>\<open>throwError\<close>, \<^verbatim>\<open>consumeErrors\<close>
  and \<^verbatim>\<open>assertData\<close>. Functions that both files define under one name carry the
  suffix \<open>_basic\<close> or \<open>_dl\<close> here when their bodies differ; the callback that
  \<^verbatim>\<open>consume\<close> registers is named after \<^verbatim>\<open>consume\<close>.

  Every effect of the code is a call on an amqplib channel. The model threads a
  \<open>world\<close> through the code: the broker's topology, the answer of the publisher
  channel's write buffer, and the trace of channel calls in the order the code issues them.
  An \<^verbatim>\<open>async\<close> function returns \<open>failure + 'a\<close> beside the new world: \<open>Inl\<close> is a
  rejected promise, and a rejection at an \<^verbatim>\<open>await\<close> skips the rest of the body.
  The calls of one delivery's handling are traced in the order of the source; how the
  continuations of different deliveries interleave is not modelled.
\<close>

datatype json =
    JNull
  | JBool bool
  | JNum int
  | JStr string
  | JArr "json list"
  | JObj "(string \<times> json) list"

datatype failure = PreconditionFailed | NotFound | SyntaxError | TypeError

text \<open>A JavaScript \<^verbatim>\<open>Error\<close>: \<^verbatim>\<open>err.constructor.name\<close> and \<^verbatim>\<open>err.message\<close>.\<close>

record js_error =
  constructor_name :: string
  message :: string

text \<open>
  One call on a channel. \<open>Ack l t\<close> is \<^verbatim>\<open>listener.ack(message)\<close> on the consumer
  channel \<open>l\<close> for the delivery tag \<open>t\<close>; the others are calls on the publisher channel.
\<close>

datatype chan_op =
    AssertExchange string string bool
  | AssertQueue string bool
  | BindQueue string string string
  | Publish string string string "int option"
  | Ack nat nat

record world =
  exchanges :: "string \<rightharpoonup> string \<times> bool"
  queues :: "string \<rightharpoonup> bool"
  bindings :: "(string \<times> string \<times> string) set"
  buffer_ok :: bool
  trace :: "chan_op list"

text \<open>The message object amqplib hands to a consumer callback.\<close>

record delivery =
  fields_exchange :: string
  fields_routingKey :: string
  deliveryTag :: nat
  content :: string

subsection \<open>The channel methods of amqplib\<close>

text \<open>
  Every call on a channel is recorded in the trace. What the broker does with a
  declaration is no code of this repository; the three declarations below follow the spec's
  data model.
\<close>

definition record_op :: "chan_op \<Rightarrow> world \<Rightarrow> world" where
  "record_op c w = w\<lparr>trace := trace w @ [c]\<rparr>"

text \<open>
  Modelled from the spec: the broker's handling of \<^verbatim>\<open>channel.assertExchange\<close>, which is
  missing from the sources. The spec calls a topology declaration an idempotent assertion: a
  declaration of a name that exists with the same attributes changes nothing. One with other
  attributes is refused and changes nothing either.
\<close>

definition ch_assertExchange ::
  "string \<Rightarrow> string \<Rightarrow> bool \<Rightarrow> world \<Rightarrow> (failure + unit) \<times> world" where
  "ch_assertExchange name type durable w =
     (let w1 = record_op (AssertExchange name type durable) w in
      case exchanges w1 name of
        None \<Rightarrow> (Inr (), w1\<lparr>exchanges := (exchanges w1)(name \<mapsto> (type, durable))\<rparr>)
      | Some a \<Rightarrow> (if a = (type, durable) then (Inr (), w1) else (Inl PreconditionFailed, w1)))"

text \<open>
  Modelled from the spec: the broker's handling of \<^verbatim>\<open>channel.assertQueue\<close>, missing from
  the sources; an idempotent assertion as for exchanges.
\<close>

definition ch_assertQueue :: "string \<Rightarrow> bool \<Rightarrow> world \<Rightarrow> (failure + unit) \<times> world" where
  "ch_assertQueue name durable w =
     (let w1 = record_op (AssertQueue name durable) w in
      case queues w1 name of
        None \<Rightarrow> (Inr (), w1\<lparr>queues := (queues w1)(name \<mapsto> durable)\<rparr>)
      | Some d \<Rightarrow> (if d = durable then (Inr (), w1) else (Inl PreconditionFailed, w1)))"

text \<open>
  Modelled from the spec: the broker's handling of \<^verbatim>\<open>channel.bindQueue\<close>, missing from
  the sources. A binding connects an exchange to a queue, so it needs both; binding twice
  is binding once.
\<close>

definition ch_bindQueue ::
  "string \<Rightarrow> string \<Rightarrow> string \<Rightarrow> world \<Rightarrow> (failure + unit) \<times> world" where
  "ch_bindQueue queue source pattern w =
     (let w1 = record_op (BindQueue queue source pattern) w in
      if exchanges w1 source = None \<or> queues w1 queue = None then (Inl NotFound, w1)
      else (Inr (), w1\<lparr>bindings := insert (queue, source, pattern) (bindings w1)\<rparr>))"

text \<open>
  \<^verbatim>\<open>publisher.publish\<close> hands the message to the channel and answers whether its write
  buffer accepted it.
\<close>

definition ch_publish ::
  "string \<Rightarrow> string \<Rightarrow> string \<Rightarrow> int option \<Rightarrow> world \<Rightarrow> bool \<times> world" where
  "ch_publish exchange routingKey buffer priority w =
     (buffer_ok w, record_op (Publish exchange routingKey buffer priority) w)"

definition ch_ack :: "nat \<Rightarrow> nat \<Rightarrow> world \<Rightarrow> world" where
  "ch_ack listener tag w = record_op (Ack listener tag) w"

section \<open>Connection manager and publisher\<close>

text \<open>\<^verbatim>\<open>assertExchange\<close> and \<^verbatim>\<open>assertQueue\<close> are the same in both variants.\<close>

definition assertExchange :: "string \<Rightarrow> world \<Rightarrow> (failure + unit) \<times> world" where
  "assertExchange exchange w = ch_assertExchange exchange ''topic'' True w"

definition assertQueue ::
  "string \<Rightarrow> string \<Rightarrow> string \<Rightarrow> world \<Rightarrow> (failure + unit) \<times> world" where
  "assertQueue exchange routingKey queue w =
     (case ch_assertExchange exchange ''topic'' True w of
        (Inl e, w1) \<Rightarrow> (Inl e, w1)
      | (Inr _, w1) \<Rightarrow>
          (case ch_assertQueue queue True w1 of
             (Inl e, w2) \<Rightarrow> (Inl e, w2)
           | (Inr _, w2) \<Rightarrow> ch_bindQueue queue exchange routingKey w2))"

text \<open>
  \<^verbatim>\<open>JSON.stringify\<close> is the parameter \<open>stringify\<close>; \<^verbatim>\<open>Buffer.from(json, "utf-8")\<close> keeps
  the text. The basic \<^verbatim>\<open>publish\<close> returns what the channel answers.
\<close>

definition publish_basic ::
  "(json \<Rightarrow> string) \<Rightarrow> string \<Rightarrow> string \<Rightarrow> json \<Rightarrow> int option \<Rightarrow> world \<Rightarrow> bool \<times> world" where
  "publish_basic stringify exchange routingKey data priority w =
     (let json = stringify data; buffer = json
      in ch_publish exchange routingKey buffer priority w)"

text \<open>
  The dead-letter \<^verbatim>\<open>publish\<close> is \<^verbatim>\<open>async\<close> and has no \<^verbatim>\<open>return\<close>: its promise
  resolves to \<^verbatim>\<open>undefined\<close>.
\<close>

definition publish_dl ::
  "(json \<Rightarrow> string) \<Rightarrow> string \<Rightarrow> string \<Rightarrow> json \<Rightarrow> int option \<Rightarrow> world
     \<Rightarrow> (failure + unit) \<times> world" where
  "publish_dl stringify exchange routingKey data priority w =
     (let json = stringify data; buffer = json
      in case ch_publish exchange routingKey buffer priority w of
           (_, w1) \<Rightarrow> (Inr (), w1))"

section \<open>Consumer\<close>

text \<open>
  The acknowledgment and the error forwarding of an envelope are closures; they are
  fields of function type here. \<^verbatim>\<open>SubscriberMessage\<close> of the basic variant has the fields
  of \<^verbatim>\<open>AbstractConsumeMessage\<close> and \<^verbatim>\<open>queue\<close>, so it is an extension of that record.

  \<^verbatim>\<open>AbstractConsumeMessage<T>\<close> is generic in its payload; the type \<open>'p\<close> of the two
  payload fields stands for it. An envelope of \<^verbatim>\<open>consume\<close> holds the parsed body, a
  \<open>json\<close>. An Error record of \<^verbatim>\<open>consumeErrors\<close> holds whatever the parsed body has under
  the names of its fields, since nothing checks the cast to \<^verbatim>\<open>ErrMessage<T>\<close>: each such
  field is a \<open>json option\<close>, \<open>None\<close> for \<^verbatim>\<open>undefined\<close>.
\<close>

record 'p AbstractConsumeMessage =
  exchange :: string
  routingKey :: string
  sourceData :: 'p
  data :: 'p
  ackMessage :: "world \<Rightarrow> world"

record SubscriberMessage = "json AbstractConsumeMessage" +
  queue :: string

record ConsumeMessage = "json AbstractConsumeMessage" +
  throwError :: "js_error \<Rightarrow> world \<Rightarrow> (failure + unit) \<times> world"

record ErrMessage = "json option AbstractConsumeMessage" +
  errMessage :: "json option"
  errType :: "json option"
  sourceExchange :: "json option"
  sourceRoutingKey :: "json option"

text \<open>
  The callback that \<^verbatim>\<open>consume\<close> of the basic variant registers on its channel
  \<open>listener\<close>. \<^verbatim>\<open>JSON.parse\<close> is the parameter \<open>parse\<close>, \<open>None\<close> where it throws.
  The result \<open>Inr None\<close> is the early return on a null message, \<open>Inr (Some m)\<close> is
  \<^verbatim>\<open>message$.next(m)\<close>, and \<open>Inl\<close> is an exception leaving the callback.
\<close>

definition consume_basic ::
  "(string \<Rightarrow> json option) \<Rightarrow> nat \<Rightarrow> string \<Rightarrow> delivery option
     \<Rightarrow> failure + SubscriberMessage option" where
  "consume_basic parse listener queue_name msg =
     (case msg of
        None \<Rightarrow> Inr None
      | Some m \<Rightarrow>
          (case parse (content m) of
             None \<Rightarrow> Inl SyntaxError
           | Some sd \<Rightarrow>
               Inr (Some \<lparr>exchange = fields_exchange m,
                          routingKey = fields_routingKey m,
                          sourceData = sd,
                          data = sd,
                          ackMessage = ch_ack listener (deliveryTag m),
                          queue = queue_name\<rparr>)))"

definition errData :: "string \<Rightarrow> string \<Rightarrow> json \<Rightarrow> js_error \<Rightarrow> json" where
  "errData ex rk sd err =
     JObj [(''sourceExchange'', JStr ex),
           (''sourceRoutingKey'', JStr rk),
           (''sourceData'', sd),
           (''errType'', JStr (constructor_name err)),
           (''errMessage'', JStr (message err))]"

text \<open>
  \<^verbatim>\<open>throwError\<close>, closed over the exchange, the routing key and the raw payload of the
  delivery.
\<close>

definition throwError_dl ::
  "(json \<Rightarrow> string) \<Rightarrow> string \<Rightarrow> string \<Rightarrow> json \<Rightarrow> js_error \<Rightarrow> world
     \<Rightarrow> (failure + unit) \<times> world" where
  "throwError_dl stringify ex rk sd err w =
     (case assertQueue ''error'' (constructor_name err) ''errors'' w of
        (Inl e, w1) \<Rightarrow> (Inl e, w1)
      | (Inr _, w1) \<Rightarrow>
          publish_dl stringify ''error'' (constructor_name err) (errData ex rk sd err) None w1)"

definition consume_dl ::
  "(string \<Rightarrow> json option) \<Rightarrow> (json \<Rightarrow> string) \<Rightarrow> nat \<Rightarrow> delivery option
     \<Rightarrow> failure + ConsumeMessage option" where
  "consume_dl parse stringify listener msg =
     (case msg of
        None \<Rightarrow> Inr None
      | Some m \<Rightarrow>
          (case parse (content m) of
             None \<Rightarrow> Inl SyntaxError
           | Some sd \<Rightarrow>
               Inr (Some \<lparr>exchange = fields_exchange m,
                          routingKey = fields_routingKey m,
                          sourceData = sd,
                          data = sd,
                          ackMessage = ch_ack listener (deliveryTag m),
                          throwError =
                            throwError_dl stringify (fields_exchange m) (fields_routingKey m) sd\<rparr>)))"

subsection \<open>The error subscription\<close>

text \<open>
  A property of a parsed value: \<open>JObj\<close> lists the properties of an object, and an array
  has none of the names read here.
\<close>

fun field :: "string \<Rightarrow> json \<Rightarrow> json option" where
  "field k (JObj kvs) = map_of kvs k"
| "field k _ = None"

fun str_field :: "string \<Rightarrow> json \<Rightarrow> string option" where
  "str_field k j = (case field k j of Some (JStr s) \<Rightarrow> Some s | _ \<Rightarrow> None)"

text \<open>
  The values a property can be assigned to: objects and arrays. The file is a module, so
  its code is strict, and an assignment to a property of \<^verbatim>\<open>null\<close> or of a primitive
  value throws a \<^verbatim>\<open>TypeError\<close>.
\<close>

fun is_object :: "json \<Rightarrow> bool" where
  "is_object (JObj kvs) = True"
| "is_object (JArr vs) = True"
| "is_object _ = False"

text \<open>
  The callback that \<^verbatim>\<open>consumeErrors\<close> registers. \<^verbatim>\<open>JSON.parse(...) as ErrMessage<T>\<close>
  is a cast without a check: the parsed value itself is emitted, after the assignments to
  \<^verbatim>\<open>exchange\<close>, \<^verbatim>\<open>routingKey\<close>, \<^verbatim>\<open>data\<close> and \<^verbatim>\<open>ackMessage\<close>. Its other fields
  are what the body holds under their names.
\<close>

definition consumeErrors ::
  "(string \<Rightarrow> json option) \<Rightarrow> nat \<Rightarrow> delivery option \<Rightarrow> failure + ErrMessage option" where
  "consumeErrors parse listener msg =
     (case msg of
        None \<Rightarrow> Inr None
      | Some m \<Rightarrow>
          (case parse (content m) of
             None \<Rightarrow> Inl SyntaxError
           | Some j \<Rightarrow>
               (if is_object j then
                  Inr (Some \<lparr>exchange = fields_exchange m,
                             routingKey = fields_routingKey m,
                             sourceData = field ''sourceData'' j,
                             data = field ''sourceData'' j,
                             ackMessage = ch_ack listener (deliveryTag m),
                             errMessage = field ''errMessage'' j,
                             errType = field ''errType'' j,
                             sourceExchange = field ''sourceExchange'' j,
                             sourceRoutingKey = field ''sourceRoutingKey'' j\<rparr>)
                else Inl TypeError)))"

text \<open>
  \<^verbatim>\<open>publisher.publish\<close> sends the exchange and the routing key as strings. What amqplib
  does with an argument that is not a string is outside this repository: the parameter
  \<open>other\<close> gives the string it sends for such a value, or the error it throws.
\<close>

definition short_string ::
  "(json option \<Rightarrow> failure + string) \<Rightarrow> json option \<Rightarrow> failure + string" where
  "short_string other v = (case v of Some (JStr s) \<Rightarrow> Inr s | _ \<Rightarrow> other v)"

text \<open>
  \<^verbatim>\<open>errMessage.replyData(priority)\<close>. The closure reads \<^verbatim>\<open>sourceExchange\<close>,
  \<^verbatim>\<open>sourceRoutingKey\<close> and \<^verbatim>\<open>data\<close> from the record when it is called, so it is a
  function of the record here and not one of its fields. It calls \<^verbatim>\<open>publish\<close> with what
  the record holds. For a payload that is \<^verbatim>\<open>undefined\<close>, \<^verbatim>\<open>JSON.stringify\<close> answers
  \<^verbatim>\<open>undefined\<close> and \<^verbatim>\<open>Buffer.from\<close> throws a \<^verbatim>\<open>TypeError\<close> before the channel is
  reached.
\<close>

definition replyData ::
  "(json \<Rightarrow> string) \<Rightarrow> (json option \<Rightarrow> failure + string) \<Rightarrow> ErrMessage \<Rightarrow> int option
     \<Rightarrow> world \<Rightarrow> (failure + unit) \<times> world" where
  "replyData stringify other em priority w =
     (case data em of
        None \<Rightarrow> (Inl TypeError, w)
      | Some d \<Rightarrow>
          (case short_string other (sourceExchange em) of
             Inl e \<Rightarrow> (Inl e, w)
           | Inr ex \<Rightarrow>
               (case short_string other (sourceRoutingKey em) of
                  Inl e \<Rightarrow> (Inl e, w)
                | Inr rk \<Rightarrow> publish_dl stringify ex rk d priority w)))"

section \<open>Validation pipeline\<close>

text \<open>
  The argument of an rxjs \<^verbatim>\<open>filter\<close>: it answers whether the envelope stays, and it
  may change the envelope and the world. \<^verbatim>\<open>Joi.attempt(v, Joi.object(schema),
  {allowUnknown: true})\<close> is the parameter \<open>schema\<close>: the validated value, or the
  error it throws.
\<close>

type_synonym 'm stage = "'m \<Rightarrow> world \<Rightarrow> (bool \<times> 'm) \<times> world"

type_synonym schema = "json \<Rightarrow> js_error + json"

type_synonym ErrorHandler = "js_error \<Rightarrow> SubscriberMessage \<Rightarrow> world \<Rightarrow> world"

definition filterOrAck ::
  "(json \<Rightarrow> bool) \<Rightarrow> ((json, 'a) AbstractConsumeMessage_scheme) stage" where
  "filterOrAck filterByMessageData m w =
     (if filterByMessageData (data m) then ((True, m), w)
      else ((False, m), ackMessage m w))"

definition attemptMessageData :: "schema \<Rightarrow> ErrorHandler \<Rightarrow> SubscriberMessage stage" where
  "attemptMessageData schema onError m w =
     (case schema (data m) of
        Inr v \<Rightarrow> ((True, m\<lparr>data := v\<rparr>), w)
      | Inl error \<Rightarrow>
          (let w1 = ackMessage m w;
               w2 = onError error m w1
           in ((False, m), w2)))"

text \<open>The promise of \<^verbatim>\<open>message.throwError(error)\<close> is dropped: its outcome is not read.\<close>

definition assertData :: "schema \<Rightarrow> ConsumeMessage stage" where
  "assertData schema m w =
     (case schema (data m) of
        Inr v \<Rightarrow> ((True, m\<lparr>data := v\<rparr>), w)
      | Inl error \<Rightarrow>
          (let w1 = ackMessage m w
           in case throwError m error w1 of (_, w2) \<Rightarrow> ((False, m), w2)))"

text \<open>
  The rxjs \<^verbatim>\<open>filter\<close> operator on the envelopes a subject emits, in their order, and
  \<^verbatim>\<open>pipe\<close>, which sends one envelope through a caller's stages until one drops it.
\<close>

fun filter_rx :: "'m stage \<Rightarrow> 'm list \<Rightarrow> world \<Rightarrow> 'm list \<times> world" where
  "filter_rx st [] w = ([], w)"
| "filter_rx st (m # ms) w =
     (case st m w of
        ((keep, m'), w1) \<Rightarrow>
          (case filter_rx st ms w1 of
             (out, w2) \<Rightarrow> ((if keep then [m'] else []) @ out, w2)))"

fun pipe :: "'m stage list \<Rightarrow> 'm \<Rightarrow> world \<Rightarrow> 'm option \<times> world" where
  "pipe [] m w = (Some m, w)"
| "pipe (st # sts) m w =
     (case st m w of
        ((True, m'), w1) \<Rightarrow> pipe sts m' w1
      | ((False, m'), w1) \<Rightarrow> (None, w1))"

text \<open>The stages a caller can put in a pipeline, for each variant.\<close>

datatype stage_basic =
    FilterOrAck_basic "json \<Rightarrow> bool"
  | AttemptMessageData schema ErrorHandler

datatype stage_dl =
    FilterOrAck_dl "json \<Rightarrow> bool"
  | AssertData schema

fun run_basic :: "stage_basic \<Rightarrow> SubscriberMessage stage" where
  "run_basic (FilterOrAck_basic f) = filterOrAck f"
| "run_basic (AttemptMessageData s h) = attemptMessageData s h"

fun run_dl :: "stage_dl \<Rightarrow> ConsumeMessage stage" where
  "run_dl (FilterOrAck_dl f) = filterOrAck f"
| "run_dl (AssertData s) = assertData s"

text \<open>An error handler that never acknowledges the delivery \<open>t\<close> of the channel \<open>l\<close>.\<close>

definition handler_keeps_acks :: "nat \<Rightarrow> nat \<Rightarrow> ErrorHandler \<Rightarrow> bool" where
  "handler_keeps_acks l t h =
     (\<forall>e m w. count_list (trace (h e m w)) (Ack l t) = count_list (trace w) (Ack l t))"

fun handlers_keep_acks :: "nat \<Rightarrow> nat \<Rightarrow> stage_basic list \<Rightarrow> bool" where
  "handlers_keep_acks l t [] = True"
| "handlers_keep_acks l t (FilterOrAck_basic f # sts) = handlers_keep_acks l t sts"
| "handlers_keep_acks l t (AttemptMessageData s h # sts) =
     (handler_keeps_acks l t h \<and> handlers_keep_acks l t sts)"

text \<open>What the broker shows of a world: its exchanges, queues and bindings.\<close>

definition topology ::
  "world \<Rightarrow> (string \<rightharpoonup> string \<times> bool) \<times> (string \<rightharpoonup> bool) \<times> (string \<times> string \<times> string) set" where
  "topology w = (exchanges w, queues w, bindings w)"

text \<open>The four channel calls of \<^verbatim>\<open>throwError\<close>, in the order of the source.\<close>

definition dead_letter_ops ::
  "(json \<Rightarrow> string) \<Rightarrow> string \<Rightarrow> string \<Rightarrow> json \<Rightarrow> js_error \<Rightarrow> chan_op list" where
  "dead_letter_ops stringify ex rk sd err =
     [AssertExchange ''error'' ''topic'' True,
      AssertQueue ''errors'' True,
      BindQueue ''errors'' ''error'' (constructor_name err),
      Publish ''error'' (constructor_name err) (stringify (errData ex rk sd err)) None]"

section \<open>Concrete values\<close>

definition empty_world :: world where
  "empty_world =
     \<lparr>exchanges = Map.empty, queues = Map.empty, bindings = {}, buffer_ok = True, trace = []\<rparr>"

definition order_1 :: json where
  "order_1 = JObj [(''id'', JNum 1)]"

definition order_x :: json where
  "order_x = JObj [(''id'', JStr ''x'')]"

definition validation_error :: js_error where
  "validation_error = \<lparr>constructor_name = ''ValidationError'', message = ''id must be a number''\<rparr>"

text \<open>A schema that requires the field \<^verbatim>\<open>id\<close> to be a number.\<close>

definition id_number :: schema where
  "id_number v = (case field ''id'' v of Some (JNum n) \<Rightarrow> Inr v | _ \<Rightarrow> Inl validation_error)"

text \<open>A finite piece of \<^verbatim>\<open>JSON.parse\<close> and \<^verbatim>\<open>JSON.stringify\<close>, enough for the examples.\<close>

definition error_record_x :: json where
  "error_record_x = errData ''orders'' ''created'' order_x validation_error"

definition error_record_loop :: json where
  "error_record_loop = errData ''error'' ''ValidationError'' error_record_x validation_error"

definition parse_ex :: "string \<Rightarrow> json option" where
  "parse_ex s =
     (if s = ''id 1'' then Some order_1
      else if s = ''id x'' then Some order_x
      else if s = ''error record x'' then Some error_record_x
      else if s = ''error record loop'' then Some error_record_loop
      else if s = ''{}'' then Some (JObj [])
      else None)"

definition stringify_ex :: "json \<Rightarrow> string" where
  "stringify_ex j =
     (if j = order_1 then ''id 1''
      else if j = order_x then ''id x''
      else if j = error_record_x then ''error record x''
      else if j = error_record_loop then ''error record loop''
      else ''null'')"

definition delivery_1 :: delivery where
  "delivery_1 =
     \<lparr>fields_exchange = ''orders'', fields_routingKey = ''created'', deliveryTag = 7,
      content = ''id 1''\<rparr>"

definition delivery_x :: delivery where
  "delivery_x =
     \<lparr>fields_exchange = ''orders'', fields_routingKey = ''created'', deliveryTag = 8,
      content = ''id x''\<rparr>"

definition delivery_bad :: delivery where
  "delivery_bad =
     \<lparr>fields_exchange = ''orders'', fields_routingKey = ''created'', deliveryTag = 9,
      content = ''{id''\<rparr>"

definition delivery_err :: delivery where
  "delivery_err =
     \<lparr>fields_exchange = ''error'', fields_routingKey = ''ValidationError'', deliveryTag = 3,
      content = ''error record x''\<rparr>"

text \<open>A broker on which the name \<^verbatim>\<open>error\<close> is taken by a fanout exchange.\<close>

definition conflict_world :: world where
  "conflict_world = empty_world\<lparr>exchanges := [''error'' \<mapsto> (''fanout'', True)]\<rparr>"

text \<open>The envelopes that the two variants of \<^verbatim>\<open>consume\<close> emit for \<open>delivery_x\<close> on channel 4.\<close>

definition envelope_x_basic :: SubscriberMessage where
  "envelope_x_basic =
     \<lparr>exchange = ''orders'', routingKey = ''created'', sourceData = order_x, data = order_x,
      ackMessage = ch_ack 4 8, queue = ''orders.created''\<rparr>"

definition envelope_x_dl :: ConsumeMessage where
  "envelope_x_dl =
     \<lparr>exchange = ''orders'', routingKey = ''created'', sourceData = order_x, data = order_x,
      ackMessage = ch_ack 4 8,
      throwError = throwError_dl stringify_ex ''orders'' ''created'' order_x\<rparr>"

text \<open>
  The Error record that \<^verbatim>\<open>consumeErrors\<close> emits for \<open>delivery_err\<close> on channel 5.
\<close>

definition error_envelope_x :: ErrMessage where
  "error_envelope_x =
     \<lparr>exchange = ''error'', routingKey = ''ValidationError'', sourceData = Some order_x,
      data = Some order_x, ackMessage = ch_ack 5 3,
      errMessage = Some (JStr ''id must be a number''),
      errType = Some (JStr ''ValidationError''), sourceExchange = Some (JStr ''orders''),
      sourceRoutingKey = Some (JStr ''created'')\<rparr>"

text \<open>
  The same delivery read through \<^verbatim>\<open>consume("errors")\<close> on channel 4: an envelope whose
  exchange is the error exchange.
\<close>

definition envelope_err_dl :: ConsumeMessage where
  "envelope_err_dl =
     \<lparr>exchange = ''error'', routingKey = ''ValidationError'', sourceData = error_record_x,
      data = error_record_x, ackMessage = ch_ack 4 3,
      throwError = throwError_dl stringify_ex ''error'' ''ValidationError'' error_record_x\<rparr>"

text \<open>
  The delivery of the record that \<^verbatim>\<open>throwError\<close> of that envelope publishes, and the Error
  record that \<^verbatim>\<open>consumeErrors\<close> emits for it on channel 5.
\<close>

definition delivery_loop :: delivery where
  "delivery_loop =
     \<lparr>fields_exchange = ''error'', fields_routingKey = ''ValidationError'', deliveryTag = 6,
      content = ''error record loop''\<rparr>"

definition error_envelope_loop :: ErrMessage where
  "error_envelope_loop =
     \<lparr>exchange = ''error'', routingKey = ''ValidationError'', sourceData = Some error_record_x,
      data = Some error_record_x, ackMessage = ch_ack 5 6,
      errMessage = Some (JStr ''id must be a number''),
      errType = Some (JStr ''ValidationError''), sourceExchange = Some (JStr ''error''),
      sourceRoutingKey = Some (JStr ''ValidationError'')\<rparr>"

text \<open>A delivery on the queue \<^verbatim>\<open>errors\<close> whose body is the empty object.\<close>

definition delivery_empty :: delivery where
  "delivery_empty =
     \<lparr>fields_exchange = ''error'', fields_routingKey = ''Other'', deliveryTag = 2,
      content = ''{}''\<rparr>"

definition error_envelope_empty :: ErrMessage where
  "error_envelope_empty =
     \<lparr>exchange = ''error'', routingKey = ''Other'', sourceData = None, data = None,
      ackMessage = ch_ack 5 2, errMessage = None, errType = None, sourceExchange = None,
      sourceRoutingKey = None\<rparr>"

text \<open>One possible answer of amqplib to a name that is not a string: it throws.\<close>

definition refuse_other :: "json option \<Rightarrow> failure + string" where
  "refuse_other v = Inl TypeError"

text \<open>An error handler a caller may pass: it publishes the error message as an alert.\<close>

definition alert_handler :: ErrorHandler where
  "alert_handler err m w = snd (ch_publish ''alerts'' (routingKey m) (message err) None w)"

text \<open>The envelopes emitted for \<open>delivery_1\<close> on channel 4.\<close>

definition envelope_1_basic :: SubscriberMessage where
  "envelope_1_basic =
     \<lparr>exchange = ''orders'', routingKey = ''created'', sourceData = order_1, data = order_1,
      ackMessage = ch_ack 4 7, queue = ''orders.created''\<rparr>"

definition envelope_1_dl :: ConsumeMessage where
  "envelope_1_dl =
     \<lparr>exchange = ''orders'', routingKey = ''created'', sourceData = order_1, data = order_1,
      ackMessage = ch_ack 4 7,
      throwError = throwError_dl stringify_ex ''orders'' ''created'' order_1\<rparr>"

section \<open>Topology assertion\<close>

lemma ch_assertExchange_ok:
  "exchanges w n = None \<or> exchanges w n = Some (ty, d) \<Longrightarrow>
   ch_assertExchange n ty d w =
     (Inr (), w\<lparr>exchanges := (exchanges w)(n \<mapsto> (ty, d)),
                trace := trace w @ [AssertExchange n ty d]\<rparr>)"
  by (auto simp: ch_assertExchange_def record_op_def Let_def fun_upd_idem)

lemma ch_assertQueue_ok:
  "queues w n = None \<or> queues w n = Some d \<Longrightarrow>
   ch_assertQueue n d w =
     (Inr (), w\<lparr>queues := (queues w)(n \<mapsto> d), trace := trace w @ [AssertQueue n d]\<rparr>)"
  by (auto simp: ch_assertQueue_def record_op_def Let_def fun_upd_idem)

lemma ch_bindQueue_ok:
  "exchanges w e \<noteq> None \<Longrightarrow> queues w q \<noteq> None \<Longrightarrow>
   ch_bindQueue q e rk w =
     (Inr (), w\<lparr>bindings := insert (q, e, rk) (bindings w),
                trace := trace w @ [BindQueue q e rk]\<rparr>)"
  by (auto simp: ch_bindQueue_def record_op_def Let_def)

lemma assertQueue_ok:
  assumes "exchanges w e = None \<or> exchanges w e = Some (''topic'', True)"
    and "queues w q = None \<or> queues w q = Some True"
  shows "assertQueue e rk q w =
     (Inr (), w\<lparr>exchanges := (exchanges w)(e \<mapsto> (''topic'', True)),
                queues := (queues w)(q \<mapsto> True),
                bindings := insert (q, e, rk) (bindings w),
                trace := trace w @ [AssertExchange e ''topic'' True, AssertQueue q True,
                                    BindQueue q e rk]\<rparr>)"
  using assms by (simp add: assertQueue_def ch_assertExchange_ok ch_assertQueue_ok ch_bindQueue_ok)

text \<open>
  Claim C8. On a broker that holds no exchange \<open>e\<close> and no queue \<open>q\<close> with other
  attributes, in particular on one where \<open>e\<close> was never asserted,
  \<^verbatim>\<open>assertQueue(e, rk, q)\<close> resolves after three channel calls in this order: assert
  the exchange \<open>e\<close> as a durable topic exchange, assert the durable queue \<open>q\<close>, bind
  \<open>q\<close> to \<open>e\<close> with \<open>rk\<close>. Afterwards the broker holds the exchange, the queue and the
  binding.
\<close>

theorem assertQueue_builds_topology:
  assumes "exchanges w e = None \<or> exchanges w e = Some (''topic'', True)"
    and "queues w q = None \<or> queues w q = Some True"
  shows "fst (assertQueue e rk q w) = Inr ()
    \<and> trace (snd (assertQueue e rk q w)) =
        trace w @ [AssertExchange e ''topic'' True, AssertQueue q True, BindQueue q e rk]
    \<and> exchanges (snd (assertQueue e rk q w)) e = Some (''topic'', True)
    \<and> queues (snd (assertQueue e rk q w)) q = Some True
    \<and> (q, e, rk) \<in> bindings (snd (assertQueue e rk q w))"
  by (simp add: assertQueue_ok [OF assms])

theorem assertQueue_builds_topology_witness:
  "exchanges empty_world ''orders'' = None
    \<and> queues empty_world ''orders.created'' = None
    \<and> fst (assertQueue ''orders'' ''created'' ''orders.created'' empty_world) = Inr ()
    \<and> trace (snd (assertQueue ''orders'' ''created'' ''orders.created'' empty_world)) =
        [AssertExchange ''orders'' ''topic'' True, AssertQueue ''orders.created'' True,
         BindQueue ''orders.created'' ''orders'' ''created'']
    \<and> exchanges (snd (assertQueue ''orders'' ''created'' ''orders.created'' empty_world)) ''orders''
        = Some (''topic'', True)
    \<and> queues (snd (assertQueue ''orders'' ''created'' ''orders.created'' empty_world))
        ''orders.created'' = Some True
    \<and> (''orders.created'', ''orders'', ''created'')
        \<in> bindings (snd (assertQueue ''orders'' ''created'' ''orders.created'' empty_world))"
  using assertQueue_builds_topology [of empty_world "''orders''" "''orders.created''" "''created''"]
  by (simp add: empty_world_def)

lemma topology_assertExchange_twice:
  "topology (snd (assertExchange e (snd (assertExchange e w)))) =
   topology (snd (assertExchange e w))"
  by (auto simp: assertExchange_def ch_assertExchange_def record_op_def Let_def topology_def
      split: option.splits)

lemma topology_assertQueue_twice:
  "topology (snd (assertQueue e rk q (snd (assertQueue e rk q w)))) =
   topology (snd (assertQueue e rk q w))"
  by (auto simp: assertQueue_def ch_assertExchange_def ch_assertQueue_def ch_bindQueue_def
      record_op_def Let_def topology_def split: option.splits)

text \<open>
  Claim C9. On every broker state, \<^verbatim>\<open>assertExchange(e)\<close> run twice in succession leaves
  the same exchanges, queues and bindings as one run, and so does
  \<^verbatim>\<open>assertQueue(e, rk, q)\<close>; this includes the states where an assertion is refused.
\<close>

theorem topology_assertion_idempotent:
  "topology (snd (assertExchange e (snd (assertExchange e w)))) =
     topology (snd (assertExchange e w))
   \<and> topology (snd (assertQueue e rk q (snd (assertQueue e rk q w)))) =
       topology (snd (assertQueue e rk q w))"
  by (simp add: topology_assertExchange_twice topology_assertQueue_twice)

section \<open>The dead-letter path\<close>

lemma publish_dl_eq:
  "publish_dl s e rk d p w = (Inr (), w\<lparr>trace := trace w @ [Publish e rk (s d) p]\<rparr>)"
  by (simp add: publish_dl_def ch_publish_def record_op_def)

lemma throwError_dl_ok:
  assumes "exchanges w ''error'' = None \<or> exchanges w ''error'' = Some (''topic'', True)"
    and "queues w ''errors'' = None \<or> queues w ''errors'' = Some True"
  shows "throwError_dl s ex rk sd err w =
     (Inr (), w\<lparr>exchanges := (exchanges w)(''error'' \<mapsto> (''topic'', True)),
                queues := (queues w)(''errors'' \<mapsto> True),
                bindings := insert (''errors'', ''error'', constructor_name err) (bindings w),
                trace := trace w @ dead_letter_ops s ex rk sd err\<rparr>)"
  by (simp add: throwError_dl_def assertQueue_ok [OF assms] publish_dl_eq dead_letter_ops_def)

lemma assertQueue_trace:
  "trace (snd (assertQueue e rk q w)) = trace w @ [AssertExchange e ''topic'' True]
   \<or> trace (snd (assertQueue e rk q w)) = trace w @ [AssertExchange e ''topic'' True, AssertQueue q True]
   \<or> trace (snd (assertQueue e rk q w)) =
        trace w @ [AssertExchange e ''topic'' True, AssertQueue q True, BindQueue q e rk]"
  by (auto simp: assertQueue_def ch_assertExchange_def ch_assertQueue_def ch_bindQueue_def
      record_op_def Let_def split: option.splits)

lemma assertQueue_resolved_trace:
  "fst (assertQueue e rk q w) = Inr () \<Longrightarrow>
   trace (snd (assertQueue e rk q w)) =
        trace w @ [AssertExchange e ''topic'' True, AssertQueue q True, BindQueue q e rk]"
  by (auto simp: assertQueue_def ch_assertExchange_def ch_assertQueue_def ch_bindQueue_def
      record_op_def Let_def split: option.splits if_splits)

lemma throwError_dl_trace:
  "\<exists>k. trace (snd (throwError_dl s ex rk sd err w)) = trace w @ take k (dead_letter_ops s ex rk sd err)"
proof (cases "assertQueue ''error'' (constructor_name err) ''errors'' w")
  case (Pair r w1)
  show ?thesis
  proof (cases r)
    case (Inl f)
    have t: "throwError_dl s ex rk sd err w = (Inl f, w1)"
      by (simp add: throwError_dl_def Pair Inl)
    from assertQueue_trace [of "''error''" "constructor_name err" "''errors''" w]
    consider "trace w1 = trace w @ take 1 (dead_letter_ops s ex rk sd err)"
      | "trace w1 = trace w @ take 2 (dead_letter_ops s ex rk sd err)"
      | "trace w1 = trace w @ take 3 (dead_letter_ops s ex rk sd err)"
      by (auto simp: Pair dead_letter_ops_def)
    then show ?thesis by cases (use t in auto)
  next
    case (Inr u)
    have "trace w1 = trace w @ take 3 (dead_letter_ops s ex rk sd err)"
      using assertQueue_resolved_trace [of "''error''" "constructor_name err" "''errors''" w]
      by (simp add: Pair Inr dead_letter_ops_def)
    then have "trace (snd (throwError_dl s ex rk sd err w)) =
        trace w @ take 4 (dead_letter_ops s ex rk sd err)"
      by (simp add: throwError_dl_def Pair Inr publish_dl_eq dead_letter_ops_def)
    then show ?thesis by blast
  qed
qed

lemma count_take_dead_letter_ops:
  "count_list (take k (dead_letter_ops s ex rk sd err)) (Ack l t) = 0"
proof -
  have "Ack l t \<notin> set (dead_letter_ops s ex rk sd err)"
    by (simp add: dead_letter_ops_def)
  then have "Ack l t \<notin> set (take k (dead_letter_ops s ex rk sd err))"
    using set_take_subset by fastforce
  then show ?thesis by (simp add: count_list_0_iff)
qed

lemma throwError_dl_no_ack:
  "count_list (trace (snd (throwError_dl s ex rk sd err w))) (Ack l t) = count_list (trace w) (Ack l t)"
  using throwError_dl_trace [of s ex rk sd err w] count_take_dead_letter_ops [of _ s ex rk sd err l t]
  by auto

lemma consume_dl_Some:
  "consume_dl parse stringify l (Some d) = Inr (Some m) \<Longrightarrow>
   \<exists>sd. parse (content d) = Some sd
     \<and> m = \<lparr>exchange = fields_exchange d, routingKey = fields_routingKey d,
            sourceData = sd, data = sd, ackMessage = ch_ack l (deliveryTag d),
            throwError = throwError_dl stringify (fields_exchange d) (fields_routingKey d) sd\<rparr>"
  by (auto simp: consume_dl_def split: option.splits)

lemma consume_basic_Some:
  "consume_basic parse l q (Some d) = Inr (Some m) \<Longrightarrow>
   \<exists>sd. parse (content d) = Some sd
     \<and> m = \<lparr>exchange = fields_exchange d, routingKey = fields_routingKey d,
            sourceData = sd, data = sd, ackMessage = ch_ack l (deliveryTag d), queue = q\<rparr>"
  by (auto simp: consume_basic_def split: option.splits)

lemma consume_x_dl:
  "consume_dl parse_ex stringify_ex 4 (Some delivery_x) = Inr (Some envelope_x_dl)"
  by (simp add: consume_dl_def parse_ex_def delivery_x_def envelope_x_dl_def)

lemma consume_x_basic:
  "consume_basic parse_ex 4 ''orders.created'' (Some delivery_x) = Inr (Some envelope_x_basic)"
  by (simp add: consume_basic_def parse_ex_def delivery_x_def envelope_x_basic_def)

text \<open>
  Claim C6. Let \<open>m\<close> be an envelope that \<^verbatim>\<open>consume\<close> of the dead-letter variant
  emitted for the delivery \<open>d\<close>. On a broker where the names \<^verbatim>\<open>error\<close> and
  \<^verbatim>\<open>errors\<close> are free or already hold the durable topic exchange and the durable queue,
  \<^verbatim>\<open>m.throwError(err)\<close> asserts the exchange \<^verbatim>\<open>error\<close>, the queue
  \<^verbatim>\<open>errors\<close> and their binding under the error's type tag, and then publishes to the
  exchange \<^verbatim>\<open>error\<close>, with the type tag as routing key, a record that holds the type
  tag, the error message and the exchange and routing key of \<open>d\<close>.
\<close>

theorem throwError_publishes_error_record:
  assumes "consume_dl parse stringify l (Some d) = Inr (Some m)"
    and "exchanges w ''error'' = None \<or> exchanges w ''error'' = Some (''topic'', True)"
    and "queues w ''errors'' = None \<or> queues w ''errors'' = Some True"
  shows "fst (throwError m err w) = Inr ()
    \<and> trace (snd (throwError m err w)) =
        trace w @ [AssertExchange ''error'' ''topic'' True,
                   AssertQueue ''errors'' True,
                   BindQueue ''errors'' ''error'' (constructor_name err),
                   Publish ''error'' (constructor_name err)
                     (stringify (errData (exchange m) (routingKey m) (sourceData m) err)) None]
    \<and> exchanges (snd (throwError m err w)) ''error'' = Some (''topic'', True)
    \<and> queues (snd (throwError m err w)) ''errors'' = Some True
    \<and> (''errors'', ''error'', constructor_name err) \<in> bindings (snd (throwError m err w))
    \<and> exchange m = fields_exchange d \<and> routingKey m = fields_routingKey d
    \<and> str_field ''errType'' (errData (exchange m) (routingKey m) (sourceData m) err)
        = Some (constructor_name err)
    \<and> str_field ''errMessage'' (errData (exchange m) (routingKey m) (sourceData m) err)
        = Some (message err)
    \<and> str_field ''sourceExchange'' (errData (exchange m) (routingKey m) (sourceData m) err)
        = Some (fields_exchange d)
    \<and> str_field ''sourceRoutingKey'' (errData (exchange m) (routingKey m) (sourceData m) err)
        = Some (fields_routingKey d)"
proof -
  from consume_dl_Some [OF assms(1)] obtain sd where
    m: "m = \<lparr>exchange = fields_exchange d, routingKey = fields_routingKey d,
            sourceData = sd, data = sd, ackMessage = ch_ack l (deliveryTag d),
            throwError = throwError_dl stringify (fields_exchange d) (fields_routingKey d) sd\<rparr>"
    by blast
  show ?thesis
    by (simp add: m throwError_dl_ok [OF assms(2,3)] dead_letter_ops_def errData_def)
qed

theorem throwError_publishes_error_record_witness:
  "consume_dl parse_ex stringify_ex 4 (Some delivery_x) = Inr (Some envelope_x_dl)
   \<and> exchanges empty_world ''error'' = None
   \<and> queues empty_world ''errors'' = None
   \<and> fst (throwError envelope_x_dl validation_error empty_world) = Inr ()
   \<and> trace (snd (throwError envelope_x_dl validation_error empty_world)) =
        [AssertExchange ''error'' ''topic'' True,
         AssertQueue ''errors'' True,
         BindQueue ''errors'' ''error'' ''ValidationError'',
         Publish ''error'' ''ValidationError'' ''error record x'' None]
   \<and> exchanges (snd (throwError envelope_x_dl validation_error empty_world)) ''error''
        = Some (''topic'', True)
   \<and> queues (snd (throwError envelope_x_dl validation_error empty_world)) ''errors'' = Some True
   \<and> (''errors'', ''error'', ''ValidationError'')
        \<in> bindings (snd (throwError envelope_x_dl validation_error empty_world))"
proof -
  have h1: "consume_dl parse_ex stringify_ex 4 (Some delivery_x) = Inr (Some envelope_x_dl)"
    by (rule consume_x_dl)
  have h2: "exchanges empty_world ''error'' = None \<or> exchanges empty_world ''error'' = Some (''topic'', True)"
    by (simp add: empty_world_def)
  have h3: "queues empty_world ''errors'' = None \<or> queues empty_world ''errors'' = Some True"
    by (simp add: empty_world_def)
  have s: "stringify_ex (errData ''orders'' ''created'' order_x validation_error) = ''error record x''"
    by (simp add: stringify_ex_def error_record_x_def errData_def order_1_def order_x_def)
  have f: "exchange envelope_x_dl = ''orders''" "routingKey envelope_x_dl = ''created''"
    "sourceData envelope_x_dl = order_x" "constructor_name validation_error = ''ValidationError''"
    by (simp_all add: envelope_x_dl_def validation_error_def)
  have e: "exchanges empty_world ''error'' = None" "queues empty_world ''errors'' = None"
    "trace empty_world = []"
    by (simp_all add: empty_world_def)
  show ?thesis
    using throwError_publishes_error_record [OF h1 h2 h3, of validation_error]
    by (simp add: h1 s f e)
qed

section \<open>Deliveries that do not parse, and the answer of publish\<close>

text \<open>
  Against claim C5 as stated: the body \<^verbatim>\<open>{id\<close> does not parse, and neither variant of
  \<^verbatim>\<open>consume\<close> passes the delivery on; the callback ends with the parse error.
\<close>

theorem unparsable_body_raises_counterexample:
  "parse_ex (content delivery_bad) = None
   \<and> consume_basic parse_ex 4 ''orders.created'' (Some delivery_bad) = Inl SyntaxError
   \<and> consume_dl parse_ex stringify_ex 4 (Some delivery_bad) = Inl SyntaxError"
  by (simp add: consume_basic_def consume_dl_def parse_ex_def delivery_bad_def)

text \<open>
  Claim C5, as amended. For a delivery whose body \<^verbatim>\<open>JSON.parse\<close> rejects, the callback of
  \<^verbatim>\<open>consume\<close> in both variants, and that of \<^verbatim>\<open>consumeErrors\<close>, raises the parse
  error before it builds an envelope: nothing is emitted to the subscribers for that delivery.
\<close>

theorem unparsable_body_raises:
  assumes "parse (content d) = None"
  shows "consume_basic parse l q (Some d) = Inl SyntaxError
    \<and> consume_dl parse stringify l (Some d) = Inl SyntaxError
    \<and> consumeErrors parse l (Some d) = Inl SyntaxError"
  using assms by (simp add: consume_basic_def consume_dl_def consumeErrors_def)

theorem unparsable_body_raises_witness:
  "parse_ex (content delivery_bad) = None
   \<and> consume_basic parse_ex 6 ''orders.created'' (Some delivery_bad) = Inl SyntaxError
   \<and> consume_dl parse_ex stringify_ex 6 (Some delivery_bad) = Inl SyntaxError
   \<and> consumeErrors parse_ex 6 (Some delivery_bad) = Inl SyntaxError"
proof -
  have h: "parse_ex (content delivery_bad) = None"
    by (simp add: parse_ex_def delivery_bad_def)
  show ?thesis
    using unparsable_body_raises [where parse = parse_ex and d = delivery_bad and l = 6
        and q = "''orders.created''" and stringify = stringify_ex, OF h] h
    by simp
qed

text \<open>
  Claim C7, at the input \<^verbatim>\<open>publish("orders", "created", {"id": 1})\<close>. The basic
  \<^verbatim>\<open>publish\<close> returns the answer of the channel: true when the write buffer accepts,
  false when it refuses. The dead-letter \<^verbatim>\<open>publish\<close> resolves to the same value in both
  cases, so its caller cannot tell them apart.
\<close>

theorem publish_dl_drops_channel_answer:
  "fst (publish_basic stringify_ex ''orders'' ''created'' order_1 None empty_world) = True
   \<and> fst (publish_basic stringify_ex ''orders'' ''created'' order_1 None
            (empty_world\<lparr>buffer_ok := False\<rparr>)) = False
   \<and> fst (publish_dl stringify_ex ''orders'' ''created'' order_1 None empty_world) = Inr ()
   \<and> fst (publish_dl stringify_ex ''orders'' ''created'' order_1 None
            (empty_world\<lparr>buffer_ok := False\<rparr>)) = Inr ()"
  by (simp add: publish_basic_def publish_dl_def ch_publish_def empty_world_def)

section \<open>The stages of the validation pipeline\<close>

lemma assertData_failure:
  "schema (data m) = Inl err \<Longrightarrow>
   assertData schema m w = ((False, m), snd (throwError m err (ackMessage m w)))"
  by (simp add: assertData_def Let_def split: prod.splits)

lemma attemptMessageData_failure:
  "schema (data m) = Inl err \<Longrightarrow>
   attemptMessageData schema onError m w = ((False, m), onError err m (ackMessage m w))"
  by (simp add: attemptMessageData_def Let_def)

lemma filter_rx_filterOrAck_out:
  "fst (filter_rx (filterOrAck f) ms w) = filter (\<lambda>m. f (data m)) ms"
  by (induction ms arbitrary: w) (simp_all add: filterOrAck_def split_beta)

lemma filter_rx_assertData_out:
  "fst (filter_rx (assertData schema) ms w) =
   List.map_filter (\<lambda>m. case schema (data m) of Inr v \<Rightarrow> Some (m\<lparr>data := v\<rparr>) | Inl e \<Rightarrow> None) ms"
  by (induction ms arbitrary: w)
    (simp_all add: assertData_def Let_def split_beta split: sum.splits)

lemma filter_rx_attemptMessageData_out:
  "fst (filter_rx (attemptMessageData schema onError) ms w) =
   List.map_filter (\<lambda>m. case schema (data m) of Inr v \<Rightarrow> Some (m\<lparr>data := v\<rparr>) | Inl e \<Rightarrow> None) ms"
  by (induction ms arbitrary: w)
    (simp_all add: attemptMessageData_def Let_def split_beta split: sum.splits)

lemma ch_ack_count:
  "count_list (trace (ch_ack l t w)) (Ack l t) = Suc (count_list (trace w) (Ack l t))"
  by (simp add: ch_ack_def record_op_def)

lemma pipe_dl_ack_count:
  assumes "ackMessage m = ch_ack l t" and "throwError m = throwError_dl s ex rk sd"
  shows "count_list (trace (snd (pipe (map run_dl sts) m w))) (Ack l t) =
     count_list (trace w) (Ack l t) + (if fst (pipe (map run_dl sts) m w) = None then 1 else 0)"
  using assms
proof (induction sts arbitrary: m w)
  case Nil
  then show ?case by simp
next
  case (Cons st sts)
  show ?case
  proof (cases st)
    case (FilterOrAck_dl f)
    show ?thesis
    proof (cases "f (data m)")
      case True
      then show ?thesis
        using Cons.IH [OF Cons.prems] by (simp add: FilterOrAck_dl filterOrAck_def)
    next
      case False
      then show ?thesis
        by (simp add: FilterOrAck_dl filterOrAck_def Cons.prems(1) ch_ack_count)
    qed
  next
    case (AssertData sc)
    show ?thesis
    proof (cases "sc (data m)")
      case (Inl e)
      have "assertData sc m w = ((False, m), snd (throwError_dl s ex rk sd e (ch_ack l t w)))"
        using Inl by (simp add: assertData_failure Cons.prems)
      then show ?thesis
        by (simp add: AssertData throwError_dl_no_ack ch_ack_count)
    next
      case (Inr v)
      have a: "assertData sc m w = ((True, m\<lparr>data := v\<rparr>), w)"
        by (simp add: assertData_def Inr)
      have "ackMessage (m\<lparr>data := v\<rparr>) = ch_ack l t"
        and "throwError (m\<lparr>data := v\<rparr>) = throwError_dl s ex rk sd"
        using Cons.prems by simp_all
      from Cons.IH [OF this] show ?thesis
        by (simp add: AssertData a)
    qed
  qed
qed

lemma pipe_basic_ack_count:
  assumes "ackMessage m = ch_ack l t" and "handlers_keep_acks l t sts"
  shows "count_list (trace (snd (pipe (map run_basic sts) m w))) (Ack l t) =
     count_list (trace w) (Ack l t) + (if fst (pipe (map run_basic sts) m w) = None then 1 else 0)"
  using assms
proof (induction sts arbitrary: m w)
  case Nil
  then show ?case by simp
next
  case (Cons st sts)
  show ?case
  proof (cases st)
    case (FilterOrAck_basic f)
    with Cons.prems have hs: "handlers_keep_acks l t sts" by simp
    show ?thesis
    proof (cases "f (data m)")
      case True
      then show ?thesis
        using Cons.IH [OF Cons.prems(1) hs] by (simp add: FilterOrAck_basic filterOrAck_def)
    next
      case False
      then show ?thesis
        by (simp add: FilterOrAck_basic filterOrAck_def Cons.prems(1) ch_ack_count)
    qed
  next
    case (AttemptMessageData sc h)
    with Cons.prems have hs: "handlers_keep_acks l t sts" and hh: "handler_keeps_acks l t h"
      by simp_all
    show ?thesis
    proof (cases "sc (data m)")
      case (Inl e)
      have "attemptMessageData sc h m w = ((False, m), h e m (ch_ack l t w))"
        using Inl by (simp add: attemptMessageData_failure Cons.prems(1))
      moreover have "count_list (trace (h e m (ch_ack l t w))) (Ack l t) =
          count_list (trace (ch_ack l t w)) (Ack l t)"
        using hh by (simp add: handler_keeps_acks_def)
      ultimately show ?thesis
        by (simp add: AttemptMessageData ch_ack_count)
    next
      case (Inr v)
      have a: "attemptMessageData sc h m w = ((True, m\<lparr>data := v\<rparr>), w)"
        by (simp add: attemptMessageData_def Inr)
      have "ackMessage (m\<lparr>data := v\<rparr>) = ch_ack l t"
        using Cons.prems by simp
      from Cons.IH [OF this hs] show ?thesis
        by (simp add: AttemptMessageData a)
    qed
  qed
qed

lemma id_number_x_basic: "id_number (data envelope_x_basic) = Inl validation_error"
  by (simp add: id_number_def envelope_x_basic_def order_x_def)

lemma id_number_x_dl: "id_number (data envelope_x_dl) = Inl validation_error"
  by (simp add: id_number_def envelope_x_dl_def order_x_def)

lemma id_number_1_basic: "id_number (data envelope_1_basic) = Inr order_1"
  by (simp add: id_number_def envelope_1_basic_def order_1_def)

lemma id_number_1_dl: "id_number (data envelope_1_dl) = Inr order_1"
  by (simp add: id_number_def envelope_1_dl_def order_1_def)

lemma stringify_error_record_x:
  "stringify_ex (errData ''orders'' ''created'' order_x validation_error) = ''error record x''"
  by (simp add: stringify_ex_def error_record_x_def errData_def order_1_def order_x_def)

lemma ack_x_dl_empty: "ackMessage envelope_x_dl empty_world = empty_world\<lparr>trace := [Ack 4 8]\<rparr>"
  by (simp add: envelope_x_dl_def ch_ack_def record_op_def empty_world_def)

lemma ack_x_basic_empty:
  "ackMessage envelope_x_basic empty_world = empty_world\<lparr>trace := [Ack 4 8]\<rparr>"
  by (simp add: envelope_x_basic_def ch_ack_def record_op_def empty_world_def)

lemma dead_letter_x_trace:
  "trace (snd (throwError envelope_x_dl validation_error (empty_world\<lparr>trace := [Ack 4 8]\<rparr>))) =
     [Ack 4 8, AssertExchange ''error'' ''topic'' True, AssertQueue ''errors'' True,
      BindQueue ''errors'' ''error'' ''ValidationError'',
      Publish ''error'' ''ValidationError'' ''error record x'' None]"
proof -
  have "throwError envelope_x_dl = throwError_dl stringify_ex ''orders'' ''created'' order_x"
    by (simp add: envelope_x_dl_def)
  moreover have "exchanges (empty_world\<lparr>trace := [Ack 4 8]\<rparr>) ''error'' = None"
    and "queues (empty_world\<lparr>trace := [Ack 4 8]\<rparr>) ''errors'' = None"
    by (simp_all add: empty_world_def)
  moreover have "constructor_name validation_error = ''ValidationError''"
    by (simp add: validation_error_def)
  ultimately show ?thesis
    by (simp add: throwError_dl_ok dead_letter_ops_def stringify_error_record_x)
qed

lemma alert_handler_x_trace:
  "trace (alert_handler validation_error envelope_x_basic (empty_world\<lparr>trace := [Ack 4 8]\<rparr>)) =
     [Ack 4 8, Publish ''alerts'' ''created'' ''id must be a number'' None]"
  by (simp add: alert_handler_def ch_publish_def record_op_def envelope_x_basic_def
      validation_error_def)

lemma alert_handler_keeps_acks: "handler_keeps_acks l t alert_handler"
  by (simp add: handler_keeps_acks_def alert_handler_def ch_publish_def record_op_def)

text \<open>
  Claim C10. Let \<open>m\<close> be an envelope of the dead-letter \<^verbatim>\<open>consume\<close> for the delivery
  \<open>d\<close> on channel \<open>l\<close>, and let its payload fail the schema. On every broker state,
  also one where the dead-letter path is rejected, \<^verbatim>\<open>assertData\<close> drops the envelope,
  and the channel calls it adds are the acknowledgment of \<open>d\<close> first, followed by an
  initial part of the four calls of \<^verbatim>\<open>throwError\<close>. The outcome of \<^verbatim>\<open>throwError\<close>
  is not read, so the acknowledgment does not depend on it.
\<close>

theorem ack_precedes_dead_letter:
  assumes "consume_dl parse stringify l (Some d) = Inr (Some m)"
    and "schema (data m) = Inl err"
  shows "fst (assertData schema m w) = (False, m)
    \<and> (\<exists>k. trace (snd (assertData schema m w)) =
          trace w @ Ack l (deliveryTag d)
            # take k (dead_letter_ops stringify (fields_exchange d) (fields_routingKey d)
                       (sourceData m) err))"
proof -
  from consume_dl_Some [OF assms(1)] obtain sd where
    m: "m = \<lparr>exchange = fields_exchange d, routingKey = fields_routingKey d,
            sourceData = sd, data = sd, ackMessage = ch_ack l (deliveryTag d),
            throwError = throwError_dl stringify (fields_exchange d) (fields_routingKey d) sd\<rparr>"
    by blast
  have a: "ackMessage m w = w\<lparr>trace := trace w @ [Ack l (deliveryTag d)]\<rparr>"
    by (simp add: m ch_ack_def record_op_def)
  have t: "throwError m err = throwError_dl stringify (fields_exchange d) (fields_routingKey d) sd err"
    and s: "sourceData m = sd"
    by (simp_all add: m)
  from throwError_dl_trace [of stringify "fields_exchange d" "fields_routingKey d" sd err
      "w\<lparr>trace := trace w @ [Ack l (deliveryTag d)]\<rparr>"]
  obtain k where "trace (snd (throwError m err (ackMessage m w))) =
      trace w @ Ack l (deliveryTag d)
        # take k (dead_letter_ops stringify (fields_exchange d) (fields_routingKey d) sd err)"
    by (auto simp: a t)
  then show ?thesis
    using assms(2) by (auto simp: assertData_failure s)
qed

theorem ack_precedes_dead_letter_witness:
  "consume_dl parse_ex stringify_ex 4 (Some delivery_x) = Inr (Some envelope_x_dl)
   \<and> id_number (data envelope_x_dl) = Inl validation_error
   \<and> fst (throwError envelope_x_dl validation_error (ackMessage envelope_x_dl conflict_world))
       = Inl PreconditionFailed
   \<and> fst (assertData id_number envelope_x_dl conflict_world) = (False, envelope_x_dl)
   \<and> trace (snd (assertData id_number envelope_x_dl conflict_world)) =
       [Ack 4 8, AssertExchange ''error'' ''topic'' True]"
proof -
  have h1: "consume_dl parse_ex stringify_ex 4 (Some delivery_x) = Inr (Some envelope_x_dl)"
    by (rule consume_x_dl)
  have h2: "id_number (data envelope_x_dl) = Inl validation_error"
    by (simp add: id_number_def envelope_x_dl_def order_x_def)
  have r: "throwError envelope_x_dl validation_error (ackMessage envelope_x_dl conflict_world)
      = (Inl PreconditionFailed,
         conflict_world\<lparr>trace := [Ack 4 8, AssertExchange ''error'' ''topic'' True]\<rparr>)"
    by (simp add: envelope_x_dl_def conflict_world_def empty_world_def throwError_dl_def
        assertQueue_def ch_assertExchange_def ch_ack_def record_op_def Let_def)
  have t: "trace (snd (assertData id_number envelope_x_dl conflict_world)) =
       [Ack 4 8, AssertExchange ''error'' ''topic'' True]"
    using h2 by (simp add: assertData_failure r)
  show ?thesis
    using ack_precedes_dead_letter [where schema = id_number and w = conflict_world, OF h1 h2]
      h1 h2 r t
    by simp
qed

text \<open>
  Claim C2. For an envelope whose typed payload fails the schema, \<^verbatim>\<open>attemptMessageData\<close>
  invokes the acknowledgment, then the caller's handler with the error and the envelope, and
  drops the envelope; \<^verbatim>\<open>assertData\<close> invokes the acknowledgment, then the envelope's
  \<^verbatim>\<open>throwError\<close> with the error, and drops the envelope. No later stage of a pipeline sees
  the envelope, and the output of either filter holds exactly the envelopes whose payload
  validated, each with the validated value as its payload.
\<close>

theorem schema_failure_acked_forwarded_dropped:
  assumes "schema (data mb) = Inl eb" and "schema (data m) = Inl e"
  shows "attemptMessageData schema onError mb w = ((False, mb), onError eb mb (ackMessage mb w))
    \<and> assertData schema m w = ((False, m), snd (throwError m e (ackMessage m w)))
    \<and> pipe (attemptMessageData schema onError # bs) mb w = (None, onError eb mb (ackMessage mb w))
    \<and> pipe (assertData schema # ds) m w = (None, snd (throwError m e (ackMessage m w)))
    \<and> fst (filter_rx (attemptMessageData schema onError) mbs w) =
        List.map_filter
          (\<lambda>x. case schema (data x) of Inr v \<Rightarrow> Some (x\<lparr>data := v\<rparr>) | Inl _ \<Rightarrow> None) mbs
    \<and> fst (filter_rx (assertData schema) ms w) =
        List.map_filter
          (\<lambda>x. case schema (data x) of Inr v \<Rightarrow> Some (x\<lparr>data := v\<rparr>) | Inl _ \<Rightarrow> None) ms"
  using assms
  by (simp add: attemptMessageData_failure assertData_failure filter_rx_attemptMessageData_out
      filter_rx_assertData_out)

theorem schema_failure_acked_forwarded_dropped_witness:
  "id_number (data envelope_x_basic) = Inl validation_error
   \<and> id_number (data envelope_x_dl) = Inl validation_error
   \<and> fst (attemptMessageData id_number alert_handler envelope_x_basic empty_world)
       = (False, envelope_x_basic)
   \<and> trace (snd (attemptMessageData id_number alert_handler envelope_x_basic empty_world))
       = [Ack 4 8, Publish ''alerts'' ''created'' ''id must be a number'' None]
   \<and> fst (assertData id_number envelope_x_dl empty_world) = (False, envelope_x_dl)
   \<and> trace (snd (assertData id_number envelope_x_dl empty_world))
       = [Ack 4 8, AssertExchange ''error'' ''topic'' True, AssertQueue ''errors'' True,
          BindQueue ''errors'' ''error'' ''ValidationError'',
          Publish ''error'' ''ValidationError'' ''error record x'' None]
   \<and> fst (pipe [attemptMessageData id_number alert_handler] envelope_x_basic empty_world) = None
   \<and> fst (pipe [assertData id_number] envelope_x_dl empty_world) = None
   \<and> map data (fst (filter_rx (attemptMessageData id_number alert_handler)
        [envelope_x_basic, envelope_1_basic] empty_world)) = [order_1]
   \<and> map data (fst (filter_rx (assertData id_number) [envelope_x_dl, envelope_1_dl] empty_world))
       = [order_1]"
  using schema_failure_acked_forwarded_dropped [where schema = id_number
      and mb = envelope_x_basic and m = envelope_x_dl and onError = alert_handler
      and w = empty_world and bs = "[]" and ds = "[]"
      and mbs = "[envelope_x_basic, envelope_1_basic]" and ms = "[envelope_x_dl, envelope_1_dl]",
      OF id_number_x_basic id_number_x_dl]
  by (simp add: id_number_x_basic id_number_x_dl id_number_1_basic id_number_1_dl
      ack_x_dl_empty ack_x_basic_empty dead_letter_x_trace alert_handler_x_trace
      del: filter_rx.simps)

text \<open>
  Claim C4. For an envelope that \<^verbatim>\<open>consume\<close> of either variant emitted for the delivery
  \<open>d\<close> on channel \<open>l\<close>, \<^verbatim>\<open>filterOrAck\<close> keeps the envelope as it is and changes
  nothing when the predicate holds of its payload. When the predicate fails, the filter drops
  the envelope and its only effect is the acknowledgment of \<open>d\<close>. The output of the filter
  is the input restricted to the envelopes that satisfy the predicate.
\<close>

theorem filterOrAck_passes_or_acks:
  assumes "consume_basic parse l q (Some d) = Inr (Some mb)"
    and "consume_dl parse stringify l (Some d) = Inr (Some m)"
  shows "filterOrAck f mb w =
      (if f (data mb) then ((True, mb), w)
       else ((False, mb), w\<lparr>trace := trace w @ [Ack l (deliveryTag d)]\<rparr>))
    \<and> filterOrAck f m w =
      (if f (data m) then ((True, m), w)
       else ((False, m), w\<lparr>trace := trace w @ [Ack l (deliveryTag d)]\<rparr>))
    \<and> fst (filter_rx (filterOrAck f) mbs w) = filter (\<lambda>x. f (data x)) mbs
    \<and> fst (filter_rx (filterOrAck f) ms w) = filter (\<lambda>x. f (data x)) ms"
proof -
  from consume_basic_Some [OF assms(1)] have "ackMessage mb = ch_ack l (deliveryTag d)"
    by auto
  moreover from consume_dl_Some [OF assms(2)] have "ackMessage m = ch_ack l (deliveryTag d)"
    by auto
  ultimately show ?thesis
    by (simp add: filterOrAck_def ch_ack_def record_op_def filter_rx_filterOrAck_out)
qed

theorem filterOrAck_passes_or_acks_witness:
  "consume_basic parse_ex 4 ''orders.created'' (Some delivery_x) = Inr (Some envelope_x_basic)
   \<and> consume_dl parse_ex stringify_ex 4 (Some delivery_x) = Inr (Some envelope_x_dl)
   \<and> filterOrAck (\<lambda>v. v = order_1) envelope_x_basic empty_world =
       ((False, envelope_x_basic), empty_world\<lparr>trace := [Ack 4 8]\<rparr>)
   \<and> filterOrAck (\<lambda>v. v = order_1) envelope_x_dl empty_world =
       ((False, envelope_x_dl), empty_world\<lparr>trace := [Ack 4 8]\<rparr>)
   \<and> filterOrAck (\<lambda>v. v = order_x) envelope_x_dl empty_world = ((True, envelope_x_dl), empty_world)
   \<and> fst (filter_rx (filterOrAck (\<lambda>v. v = order_1)) [envelope_x_dl, envelope_1_dl] empty_world)
       = [envelope_1_dl]"
proof -
  have d: "data envelope_x_basic = order_x" "data envelope_x_dl = order_x"
    "data envelope_1_dl = order_1" "order_x \<noteq> order_1" "deliveryTag delivery_x = 8"
    "trace empty_world = []"
    by (simp_all add: envelope_x_basic_def envelope_x_dl_def envelope_1_dl_def order_x_def
        order_1_def delivery_x_def empty_world_def)
  note t = filterOrAck_passes_or_acks [OF consume_x_basic consume_x_dl,
      where w = empty_world and ms = "[envelope_x_dl, envelope_1_dl]"]
  show ?thesis
    using t [of "\<lambda>v. v = order_1" "[]"] t [of "\<lambda>v. v = order_x" "[]"]
    by (auto simp: consume_x_basic consume_x_dl d simp del: filter_rx.simps)
qed

section \<open>Replay of an error record\<close>

lemma consumeErrors_Some:
  assumes "consumeErrors parse l (Some d) = Inr (Some em)"
  shows "\<exists>j. parse (content d) = Some j
    \<and> field ''sourceExchange'' j = sourceExchange em
    \<and> field ''sourceRoutingKey'' j = sourceRoutingKey em
    \<and> field ''sourceData'' j = data em
    \<and> exchange em = fields_exchange d \<and> routingKey em = fields_routingKey d"
proof (cases "parse (content d)")
  case None
  with assms show ?thesis by (simp add: consumeErrors_def)
next
  case (Some j)
  with assms show ?thesis
    by (auto simp: consumeErrors_def split: if_splits)
qed

lemma replyData_strings:
  assumes "sourceExchange em = Some (JStr ex)" and "sourceRoutingKey em = Some (JStr rk)"
    and "data em = Some payload"
  shows "replyData stringify other em priority w =
     (Inr (), w\<lparr>trace := trace w @ [Publish ex rk (stringify payload) priority]\<rparr>)"
  using assms by (simp add: replyData_def short_string_def publish_dl_eq)

lemma consumeErrors_x:
  "consumeErrors parse_ex 5 (Some delivery_err) = Inr (Some error_envelope_x)"
  by (simp add: consumeErrors_def parse_ex_def delivery_err_def error_record_x_def errData_def
      error_envelope_x_def validation_error_def)

lemma consumeErrors_loop:
  "consumeErrors parse_ex 5 (Some delivery_loop) = Inr (Some error_envelope_loop)"
  by (simp add: consumeErrors_def parse_ex_def delivery_loop_def error_record_loop_def
      errData_def error_envelope_loop_def validation_error_def)

lemma consumeErrors_empty:
  "consumeErrors parse_ex 5 (Some delivery_empty) = Inr (Some error_envelope_empty)"
  by (simp add: consumeErrors_def parse_ex_def delivery_empty_def error_envelope_empty_def)

lemma consume_err_dl:
  "consume_dl parse_ex stringify_ex 4 (Some delivery_err) = Inr (Some envelope_err_dl)"
  by (simp add: consume_dl_def parse_ex_def delivery_err_def envelope_err_dl_def)

lemma id_number_err_dl: "id_number (data envelope_err_dl) = Inl validation_error"
  by (simp add: id_number_def envelope_err_dl_def error_record_x_def errData_def)

lemma stringify_error_record_loop:
  "stringify_ex (errData ''error'' ''ValidationError'' error_record_x validation_error) =
     ''error record loop''"
  by (simp add: stringify_ex_def error_record_loop_def error_record_x_def errData_def
      order_1_def order_x_def)

lemma dead_letter_err_trace:
  "trace (snd (throwError envelope_err_dl validation_error (empty_world\<lparr>trace := [Ack 4 3]\<rparr>))) =
     [Ack 4 3, AssertExchange ''error'' ''topic'' True, AssertQueue ''errors'' True,
      BindQueue ''errors'' ''error'' ''ValidationError'',
      Publish ''error'' ''ValidationError'' ''error record loop'' None]"
proof -
  have "throwError envelope_err_dl =
      throwError_dl stringify_ex ''error'' ''ValidationError'' error_record_x"
    by (simp add: envelope_err_dl_def)
  moreover have "exchanges (empty_world\<lparr>trace := [Ack 4 3]\<rparr>) ''error'' = None"
    and "queues (empty_world\<lparr>trace := [Ack 4 3]\<rparr>) ''errors'' = None"
    by (simp_all add: empty_world_def)
  moreover have "constructor_name validation_error = ''ValidationError''"
    by (simp add: validation_error_def)
  ultimately show ?thesis
    by (simp add: throwError_dl_ok dead_letter_ops_def stringify_error_record_loop)
qed

text \<open>
  Against claim C3 as stated, at two records. The first is one the code produces itself: a
  delivery from the exchange \<^verbatim>\<open>error\<close>, read through \<^verbatim>\<open>consume\<close>, fails
  \<^verbatim>\<open>assertData\<close>, and \<^verbatim>\<open>throwError\<close> records \<^verbatim>\<open>error\<close> as its source exchange; the
  replay of that record publishes to the error exchange. The second has the empty object as
  its body: \<^verbatim>\<open>consumeErrors\<close> emits it, and its replay publishes nothing.
\<close>

theorem replay_targets_source_counterexample:
  "consume_dl parse_ex stringify_ex 4 (Some delivery_err) = Inr (Some envelope_err_dl)
   \<and> id_number (data envelope_err_dl) = Inl validation_error
   \<and> trace (snd (assertData id_number envelope_err_dl empty_world)) =
       [Ack 4 3, AssertExchange ''error'' ''topic'' True, AssertQueue ''errors'' True,
        BindQueue ''errors'' ''error'' ''ValidationError'',
        Publish ''error'' ''ValidationError'' ''error record loop'' None]
   \<and> content delivery_loop = ''error record loop''
   \<and> consumeErrors parse_ex 5 (Some delivery_loop) = Inr (Some error_envelope_loop)
   \<and> replyData stringify_ex refuse_other error_envelope_loop None empty_world =
       (Inr (), empty_world\<lparr>trace := [Publish ''error'' ''ValidationError'' ''error record x'' None]\<rparr>)
   \<and> consumeErrors parse_ex 5 (Some delivery_empty) = Inr (Some error_envelope_empty)
   \<and> replyData stringify_ex refuse_other error_envelope_empty None empty_world =
       (Inl TypeError, empty_world)"
proof -
  have a: "ackMessage envelope_err_dl empty_world = empty_world\<lparr>trace := [Ack 4 3]\<rparr>"
    by (simp add: envelope_err_dl_def ch_ack_def record_op_def empty_world_def)
  have t: "trace (snd (assertData id_number envelope_err_dl empty_world)) =
       [Ack 4 3, AssertExchange ''error'' ''topic'' True, AssertQueue ''errors'' True,
        BindQueue ''errors'' ''error'' ''ValidationError'',
        Publish ''error'' ''ValidationError'' ''error record loop'' None]"
    using id_number_err_dl by (simp add: assertData_failure a dead_letter_err_trace)
  have s: "stringify_ex error_record_x = ''error record x''"
    by (simp add: stringify_ex_def error_record_x_def errData_def order_1_def order_x_def)
  have r: "replyData stringify_ex refuse_other error_envelope_loop None empty_world =
       (Inr (), empty_world\<lparr>trace := [Publish ''error'' ''ValidationError'' ''error record x'' None]\<rparr>)"
    by (simp add: replyData_def short_string_def publish_dl_eq error_envelope_loop_def s
        empty_world_def)
  have e: "replyData stringify_ex refuse_other error_envelope_empty None empty_world =
       (Inl TypeError, empty_world)"
    by (simp add: replyData_def error_envelope_empty_def)
  have c: "content delivery_loop = ''error record loop''"
    by (simp add: delivery_loop_def)
  show ?thesis
    by (simp add: consume_err_dl id_number_err_dl t consumeErrors_loop r consumeErrors_empty e c)
qed

text \<open>
  Claim C3, as amended. Let \<^verbatim>\<open>consumeErrors\<close> emit an Error record that holds strings as
  \<^verbatim>\<open>sourceExchange\<close> and \<^verbatim>\<open>sourceRoutingKey\<close> and holds a payload. These are the values
  the body of the error delivery records, while \<^verbatim>\<open>exchange\<close> and \<^verbatim>\<open>routingKey\<close> of the
  record are those of the error delivery itself. The replay of the record resolves after one
  publication: of the payload, to the recorded source exchange with the recorded source
  routing key and the priority the caller passed. The exchange the error delivery came from
  plays no part, so the replay reaches the error exchange only for a record whose recorded
  source exchange is the error exchange.
\<close>

theorem replay_targets_source:
  assumes "consumeErrors parse l (Some d) = Inr (Some em)"
    and "sourceExchange em = Some (JStr ex)"
    and "sourceRoutingKey em = Some (JStr rk)"
    and "data em = Some payload"
  shows "(\<exists>j. parse (content d) = Some j
      \<and> field ''sourceExchange'' j = Some (JStr ex)
      \<and> field ''sourceRoutingKey'' j = Some (JStr rk)
      \<and> field ''sourceData'' j = Some payload)
    \<and> exchange em = fields_exchange d \<and> routingKey em = fields_routingKey d
    \<and> (\<forall>priority w. replyData stringify other em priority w =
          (Inr (), w\<lparr>trace := trace w @ [Publish ex rk (stringify payload) priority]\<rparr>))
    \<and> (\<forall>priority w key body p.
          (trace (snd (replyData stringify other em priority w)) =
             trace w @ [Publish ''error'' key body p]) =
          (ex = ''error'' \<and> key = rk \<and> body = stringify payload \<and> p = priority))"
proof -
  from consumeErrors_Some [OF assms(1)] assms(2-4)
  have "(\<exists>j. parse (content d) = Some j
      \<and> field ''sourceExchange'' j = Some (JStr ex)
      \<and> field ''sourceRoutingKey'' j = Some (JStr rk)
      \<and> field ''sourceData'' j = Some payload)
    \<and> exchange em = fields_exchange d \<and> routingKey em = fields_routingKey d"
    by auto
  moreover have r: "\<And>priority w. replyData stringify other em priority w =
          (Inr (), w\<lparr>trace := trace w @ [Publish ex rk (stringify payload) priority]\<rparr>)"
    by (rule replyData_strings [OF assms(2-4)])
  ultimately show ?thesis
    by (auto simp: r)
qed

theorem replay_targets_source_witness:
  "consumeErrors parse_ex 5 (Some delivery_err) = Inr (Some error_envelope_x)
   \<and> sourceExchange error_envelope_x = Some (JStr ''orders'')
   \<and> sourceRoutingKey error_envelope_x = Some (JStr ''created'')
   \<and> data error_envelope_x = Some order_x
   \<and> parse_ex (content delivery_err) =
       Some (errData ''orders'' ''created'' order_x validation_error)
   \<and> exchange error_envelope_x = ''error''
   \<and> replyData stringify_ex refuse_other error_envelope_x (Some 9) empty_world =
       (Inr (), empty_world\<lparr>trace := [Publish ''orders'' ''created'' ''id x'' (Some 9)]\<rparr>)"
proof -
  have p: "parse_ex (content delivery_err) =
      Some (errData ''orders'' ''created'' order_x validation_error)"
    by (simp add: parse_ex_def delivery_err_def error_record_x_def)
  have s: "stringify_ex order_x = ''id x''"
    by (simp add: stringify_ex_def order_x_def order_1_def)
  have f: "sourceExchange error_envelope_x = Some (JStr ''orders'')"
    "sourceRoutingKey error_envelope_x = Some (JStr ''created'')"
    "data error_envelope_x = Some order_x"
    by (simp_all add: error_envelope_x_def)
  have g: "exchange error_envelope_x = ''error''" "trace empty_world = []"
    by (simp_all add: error_envelope_x_def empty_world_def)
  show ?thesis
    using replay_targets_source [where stringify = stringify_ex and other = refuse_other,
        OF consumeErrors_x f]
    by (simp add: consumeErrors_x p s f g)
qed

section \<open>Acknowledgments along a pipeline\<close>

text \<open>
  Against claim C1 as stated: the acknowledgment of an envelope has no guard. Invoked twice,
  it acknowledges the same delivery twice on the channel.
\<close>

theorem double_ack_performed:
  "consume_basic parse_ex 4 ''orders.created'' (Some delivery_x) = Inr (Some envelope_x_basic)
   \<and> consume_dl parse_ex stringify_ex 4 (Some delivery_x) = Inr (Some envelope_x_dl)
   \<and> trace (ackMessage envelope_x_basic (ackMessage envelope_x_basic empty_world))
       = [Ack 4 8, Ack 4 8]
   \<and> trace (ackMessage envelope_x_dl (ackMessage envelope_x_dl empty_world))
       = [Ack 4 8, Ack 4 8]
   \<and> count_list (trace (ackMessage envelope_x_dl (ackMessage envelope_x_dl empty_world)))
        (Ack 4 8) = 2"
  by (simp add: consume_x_basic consume_x_dl envelope_x_basic_def envelope_x_dl_def ch_ack_def
      record_op_def empty_world_def)

text \<open>
  Claim C1, as amended. Let an envelope come from \<^verbatim>\<open>consume\<close> of either variant for the
  delivery \<open>d\<close> on channel \<open>l\<close>, and let it run through any sequence of the pipeline
  stages, where the error handlers a caller passes do not acknowledge \<open>d\<close> themselves. Then
  the stages acknowledge \<open>d\<close> exactly once when one of them drops the envelope, and not at
  all when the envelope passes every stage.
\<close>

theorem pipeline_acks_at_most_once:
  assumes "consume_basic parse l q (Some d) = Inr (Some mb)"
    and "consume_dl parse stringify l (Some d) = Inr (Some m)"
    and "handlers_keep_acks l (deliveryTag d) bs"
  shows "count_list (trace (snd (pipe (map run_basic bs) mb w))) (Ack l (deliveryTag d)) =
      count_list (trace w) (Ack l (deliveryTag d))
        + (if fst (pipe (map run_basic bs) mb w) = None then 1 else 0)
    \<and> count_list (trace (snd (pipe (map run_dl ds) m w))) (Ack l (deliveryTag d)) =
      count_list (trace w) (Ack l (deliveryTag d))
        + (if fst (pipe (map run_dl ds) m w) = None then 1 else 0)"
proof -
  from consume_basic_Some [OF assms(1)] have b: "ackMessage mb = ch_ack l (deliveryTag d)"
    by auto
  from consume_dl_Some [OF assms(2)] obtain sd where
    "ackMessage m = ch_ack l (deliveryTag d)"
    "throwError m = throwError_dl stringify (fields_exchange d) (fields_routingKey d) sd"
    by auto
  from pipe_dl_ack_count [OF this] pipe_basic_ack_count [OF b assms(3)]
  show ?thesis by simp
qed

theorem pipeline_acks_at_most_once_witness:
  "consume_basic parse_ex 4 ''orders.created'' (Some delivery_x) = Inr (Some envelope_x_basic)
   \<and> consume_dl parse_ex stringify_ex 4 (Some delivery_x) = Inr (Some envelope_x_dl)
   \<and> handlers_keep_acks 4 8
        [FilterOrAck_basic (\<lambda>v. v = order_x), AttemptMessageData id_number alert_handler]
   \<and> fst (pipe (map run_basic
        [FilterOrAck_basic (\<lambda>v. v = order_x), AttemptMessageData id_number alert_handler])
        envelope_x_basic empty_world) = None
   \<and> count_list (trace (snd (pipe (map run_basic
        [FilterOrAck_basic (\<lambda>v. v = order_x), AttemptMessageData id_number alert_handler])
        envelope_x_basic empty_world))) (Ack 4 8) = 1
   \<and> fst (pipe (map run_dl [FilterOrAck_dl (\<lambda>v. v = order_x), AssertData id_number])
        envelope_x_dl empty_world) = None
   \<and> count_list (trace (snd (pipe (map run_dl
        [FilterOrAck_dl (\<lambda>v. v = order_x), AssertData id_number])
        envelope_x_dl empty_world))) (Ack 4 8) = 1"
proof -
  let ?bs = "[FilterOrAck_basic (\<lambda>v. v = order_x), AttemptMessageData id_number alert_handler]"
  let ?ds = "[FilterOrAck_dl (\<lambda>v. v = order_x), AssertData id_number]"
  have t: "deliveryTag delivery_x = 8" "trace empty_world = []"
    by (simp_all add: delivery_x_def empty_world_def)
  have h: "handlers_keep_acks 4 (deliveryTag delivery_x) ?bs"
    by (simp add: alert_handler_keeps_acks)
  have d: "data envelope_x_basic = order_x" "data envelope_x_dl = order_x"
    by (simp_all add: envelope_x_basic_def envelope_x_dl_def)
  have pb: "fst (pipe (map run_basic ?bs) envelope_x_basic empty_world) = None"
    using id_number_x_basic by (simp add: filterOrAck_def d attemptMessageData_failure)
  have pd: "fst (pipe (map run_dl ?ds) envelope_x_dl empty_world) = None"
    using id_number_x_dl by (simp add: filterOrAck_def d assertData_failure)
  show ?thesis
    using pipeline_acks_at_most_once [OF consume_x_basic consume_x_dl h,
        where w = empty_world and ds = ?ds] pb pd h
    by (simp add: consume_x_basic consume_x_dl t del: pipe.simps)
qed

end
